theory Spec2Isabelle
  imports Main
begin

section \<open>JavaScript values and strings\<close>

text \<open>
  A JavaScript string is modelled as a \<^typ>\<open>string\<close>: a list of code units below 256.
  The values a tool call can carry in its \<^verbatim>\<open>arguments\<close> object are JSON values; the
  numbers the modelled operations take (page indexes, colour components) are modelled as
  integers.
\<close>

datatype jsvalue =
    JUndefined
  | JNull
  | JBool bool
  | JNum int
  | JStr string
  | JArr "jsvalue list"
  | JObj "(string \<times> jsvalue) list"

fun show_nat :: "nat \<Rightarrow> string" where
  "show_nat n =
     (if n < 10 then [''0123456789'' ! n]
      else show_nat (n div 10) @ [''0123456789'' ! (n mod 10)])"

declare show_nat.simps [simp del]

definition show_int :: "int \<Rightarrow> string" where
  "show_int i = (if i < 0 then ''-'' @ show_nat (nat (- i)) else show_nat (nat i))"

fun join_with :: "string \<Rightarrow> string list \<Rightarrow> string" where
  "join_with sep [] = []"
| "join_with sep [x] = x"
| "join_with sep (x # y # ys) = x @ sep @ join_with sep (y # ys)"

text \<open>
  \<^verbatim>\<open>ToString\<close>, as a template literal's \<^verbatim>\<open>${...}\<close> applies it. An array is its elements
  joined by a comma, with \<^verbatim>\<open>undefined\<close> and \<^verbatim>\<open>null\<close> elements rendered empty.
\<close>

fun js_to_string :: "jsvalue \<Rightarrow> string" where
  "js_to_string JUndefined = ''undefined''"
| "js_to_string JNull = ''null''"
| "js_to_string (JBool b) = (if b then ''true'' else ''false'')"
| "js_to_string (JNum i) = show_int i"
| "js_to_string (JStr s) = s"
| "js_to_string (JArr xs) =
     join_with '',''
       (map (\<lambda>x. case x of JUndefined \<Rightarrow> [] | JNull \<Rightarrow> [] | _ \<Rightarrow> js_to_string x) xs)"
| "js_to_string (JObj kvs) = ''[object Object]''"

fun js_truthy :: "jsvalue \<Rightarrow> bool" where
  "js_truthy JUndefined = False"
| "js_truthy JNull = False"
| "js_truthy (JBool b) = b"
| "js_truthy (JNum i) = (i \<noteq> 0)"
| "js_truthy (JStr s) = (s \<noteq> [])"
| "js_truthy (JArr xs) = True"
| "js_truthy (JObj kvs) = True"

text \<open>\<^verbatim>\<open>s.replace(/c/g, r)\<close> for a single character \<open>c\<close>.\<close>

fun replace_all :: "char \<Rightarrow> string \<Rightarrow> string \<Rightarrow> string" where
  "replace_all c r [] = []"
| "replace_all c r (x # xs) = (if x = c then r @ replace_all c r xs else x # replace_all c r xs)"

text \<open>\<^verbatim>\<open>String.prototype.trim\<close>: white space and line terminators, among code units below 256.\<close>

definition js_ws :: "char \<Rightarrow> bool" where
  "js_ws c \<longleftrightarrow> c \<in> {CHR 0x09, CHR 0x0A, CHR 0x0B, CHR 0x0C, CHR 0x0D, CHR 0x20, CHR 0xA0}"

definition trim :: "string \<Rightarrow> string" where
  "trim s = rev (dropWhile js_ws (rev (dropWhile js_ws s)))"

text \<open>An absent property of the arguments object reads as \<^verbatim>\<open>undefined\<close>.\<close>

type_synonym args = "string \<rightharpoonup> jsvalue"

definition get_prop :: "args \<Rightarrow> string \<Rightarrow> jsvalue" where
  "get_prop a k = (case a k of None \<Rightarrow> JUndefined | Some v \<Rightarrow> v)"

text \<open>A destructuring default \<^verbatim>\<open>{ k = d }\<close> applies when the property is \<^verbatim>\<open>undefined\<close>.\<close>

definition prop_default :: "args \<Rightarrow> string \<Rightarrow> jsvalue \<Rightarrow> jsvalue" where
  "prop_default a k d = (if get_prop a k = JUndefined then d else get_prop a k)"

section \<open>Errors\<close>

datatype ErrorCode = MethodNotFound | InternalError

text \<open>
  The \<^verbatim>\<open>TypeError\<close>s the JavaScript engine raises in the modelled methods: destructuring
  \<^verbatim>\<open>undefined\<close>, reading a property of \<^verbatim>\<open>undefined\<close> or \<^verbatim>\<open>null\<close>, calling what is
  not a function.
\<close>

datatype type_error =
    DestructureUndefined string
  | ReadPropertyOfNullish string
  | NotAFunction string

datatype js_error =
    Error string
  | TypeError type_error
  | McpError ErrorCode string

section \<open>The environment: file system, child process, libraries\<close>

type_synonym fs = "string \<rightharpoonup> string"

record execopts =
  encoding :: string
  timeout :: nat

datatype event =
    WriteFile string string
  | ExecSync string execopts
  | Unlink string

record world =
  files :: fs
  trace :: "event list"

text \<open>
  What the program does not define itself is a parameter:
  \<^item> \<open>dirname\<close>: the module's directory \<^verbatim>\<open>__dirname\<close>;
  \<^item> \<open>execSync\<close>: \<^verbatim>\<open>child_process.execSync\<close> on a command and its options, in a file system:
    the child's output (\<open>Inr\<close>) or the message of the error it throws on a spawn failure, a
    non-zero exit or a timeout (\<open>Inl\<close>), and the file system the child leaves behind;
  \<^item> \<open>writeError\<close>: the message of the error \<^verbatim>\<open>fs.writeFileSync\<close> throws for a path, if it does;
  \<^item> \<open>typeErrorMessage\<close>: the engine's message of a \<^verbatim>\<open>TypeError\<close>;
  \<^item> \<open>mcpMessage\<close>: the message the SDK's \<^verbatim>\<open>McpError\<close> constructor builds from a code and
    a text;
  \<^item> \<open>otherScript\<close>: for the tools whose script templates are not embedded below, the script
    the tool's method renders from the arguments, or the error rendering throws.
\<close>

record env =
  dirname :: string
  execSync :: "string \<Rightarrow> execopts \<Rightarrow> fs \<Rightarrow> fs \<times> (string + string)"
  writeError :: "string \<Rightarrow> fs \<Rightarrow> string option"
  typeErrorMessage :: "type_error \<Rightarrow> string"
  mcpMessage :: "ErrorCode \<Rightarrow> string \<Rightarrow> string"
  otherScript :: "string \<Rightarrow> args option \<Rightarrow> js_error + string"

definition message :: "env \<Rightarrow> js_error \<Rightarrow> string" where
  "message e err =
     (case err of
        Error m \<Rightarrow> m
      | TypeError t \<Rightarrow> typeErrorMessage e t
      | McpError c m \<Rightarrow> mcpMessage e c m)"

text \<open>\<^verbatim>\<open>path.join\<close> of a normalised directory (as \<^verbatim>\<open>__dirname\<close> is) and a file name.\<close>

definition path_join :: "string \<Rightarrow> string \<Rightarrow> string" where
  "path_join d f = (if d = ''/'' then d @ f else d @ ''/'' @ f)"

text \<open>\<^verbatim>\<open>fs.writeFileSync\<close>: throws and leaves the file system as it was, or stores the content.\<close>

definition writeFileSync :: "env \<Rightarrow> string \<Rightarrow> string \<Rightarrow> world \<Rightarrow> js_error + world" where
  "writeFileSync e p txt w =
     (case writeError e p (files w) of
        Some m \<Rightarrow> Inl (Error m)
      | None \<Rightarrow> Inr \<lparr>files = (files w)(p \<mapsto> txt), trace = trace w @ [WriteFile p txt]\<rparr>)"

definition existsSync :: "string \<Rightarrow> world \<Rightarrow> bool" where
  "existsSync p w \<longleftrightarrow> files w p \<noteq> None"

definition unlinkSync :: "string \<Rightarrow> world \<Rightarrow> world" where
  "unlinkSync p w = \<lparr>files = (files w)(p := None), trace = trace w @ [Unlink p]\<rparr>"

section \<open>The bridge\<close>

text \<open>\<^verbatim>\<open>executeAppleScript\<close>: one \<^verbatim>\<open>osascript\<close> child, its output trimmed.\<close>

definition osascript_command :: "string \<Rightarrow> string" where
  \<open>osascript_command script =
     ''osascript -e '' @ [CHR 0x27] @
     replace_all (CHR 0x27) ([CHR 0x27] @ ''"'' @ [CHR 0x27] @ ''"'' @ [CHR 0x27]) script @
     [CHR 0x27]\<close>

definition executeAppleScript :: "env \<Rightarrow> string \<Rightarrow> world \<Rightarrow> (js_error + string) \<times> world" where
  "executeAppleScript e script w =
     (let cmd = osascript_command script;
          opts = \<lparr>encoding = ''utf8'', timeout = 30000\<rparr>;
          (files', r) = execSync e cmd opts (files w);
          w' = \<lparr>files = files', trace = trace w @ [ExecSync cmd opts]\<rparr>
      in case r of
           Inl m \<Rightarrow> (Inl (Error (''AppleScript execution failed: '' @ m)), w')
         | Inr out \<Rightarrow> (Inr (trim out), w'))"

definition tempScript :: "env \<Rightarrow> string" where
  "tempScript e = path_join (dirname e) ''temp_script.jsx''"

definition wrappedScript :: "jsvalue \<Rightarrow> string" where
  \<open>wrappedScript script =
     ''\<newline>'' @
     ''      try {\<newline>'' @
     ''        '' @ js_to_string script @ ''\<newline>'' @
     ''      } catch (error) {\<newline>'' @
     ''        "ERROR: " + error.message + " (Line: " + (error.line || "unknown") + ")";\<newline>'' @
     ''      }\<newline>'' @
     ''    ''\<close>

definition appleScript :: "string \<Rightarrow> string" where
  \<open>appleScript p =
     ''\<newline>'' @
     ''        tell application "Adobe InDesign 2025"\<newline>'' @
     ''          activate\<newline>'' @
     ''          do script POSIX file "'' @ p @ ''" language javascript\<newline>'' @
     ''        end tell\<newline>'' @
     ''      ''\<close>

text \<open>
  \<^verbatim>\<open>executeInDesignScript\<close>: the write is before the \<^verbatim>\<open>try\<close>; the \<^verbatim>\<open>finally\<close> block runs
  whether \<^verbatim>\<open>executeAppleScript\<close> returned or threw.
\<close>

definition executeInDesignScript :: "env \<Rightarrow> jsvalue \<Rightarrow> world \<Rightarrow> (js_error + string) \<times> world" where
  "executeInDesignScript e script w =
     (case writeFileSync e (tempScript e) (wrappedScript script) w of
        Inl err \<Rightarrow> (Inl err, w)
      | Inr w1 \<Rightarrow>
          (let (r, w2) = executeAppleScript e (appleScript (tempScript e)) w1;
               w3 = (if existsSync (tempScript e) w2 then unlinkSync (tempScript e) w2 else w2)
           in (r, w3)))"

text \<open>A content block \<^verbatim>\<open>{ type, text }\<close> of a response.\<close>

record content_block =
  block_type :: string
  block_text :: string

record response =
  content :: "content_block list"

definition formatResponse :: "string \<Rightarrow> string \<Rightarrow> response" where
  "formatResponse result operation =
     \<lparr>content = [\<lparr>block_type = ''text'', block_text = operation @ '': '' @ result\<rparr>]\<rparr>"

text \<open>
  The last two statements of every tool method: run the rendered script through
  \<^verbatim>\<open>executeInDesignScript\<close> and format what it returns under the method's label.
\<close>

definition run_script :: "env \<Rightarrow> string \<Rightarrow> jsvalue \<Rightarrow> world \<Rightarrow> (js_error + response) \<times> world" where
  "run_script e label script w =
     (case executeInDesignScript e script w of
        (Inl err, w') \<Rightarrow> (Inl err, w')
      | (Inr result, w') \<Rightarrow> (Inr (formatResponse result label), w'))"

text \<open>A tool method: render the script from the arguments (which may throw), then run it.\<close>

definition operation ::
  "env \<Rightarrow> string \<Rightarrow> js_error + string \<Rightarrow> world \<Rightarrow> (js_error + response) \<times> world" where
  "operation e label rendered w =
     (case rendered of
        Inl err \<Rightarrow> (Inl err, w)
      | Inr script \<Rightarrow> run_script e label (JStr script) w)"

section \<open>The tool methods\<close>

text \<open>
  The catalog: each tool's name, the label its method passes to \<^verbatim>\<open>formatResponse\<close>, and the
  parameters its input schema declares \<^verbatim>\<open>required\<close>, in the order of the handler's
  \<^verbatim>\<open>switch\<close>.
\<close>

definition catalog :: "(string \<times> string \<times> string list) list" where
  "catalog = [
      (''get_document_info'', ''Document Info'', []),
      (''create_document'', ''Create Document'', []),
      (''open_document'', ''Open Document'', [''filePath'']),
      (''save_document'', ''Save Document'', []),
      (''close_document'', ''Close Document'', []),
      (''add_page'', ''Add Page'', []),
      (''delete_page'', ''Delete Page'', [''pageIndex'']),
      (''duplicate_page'', ''Duplicate Page'', [''pageIndex'']),
      (''navigate_to_page'', ''Navigate to Page'', [''pageIndex'']),
      (''create_text_frame'', ''Create Text Frame'', [''content'']),
      (''edit_text_frame'', ''Edit Text Frame'', [''frameIndex'']),
      (''find_replace_text'', ''Find/Replace Text'', [''findText'', ''replaceText'']),
      (''place_image'', ''Place Image'', [''imagePath'']),
      (''create_rectangle'', ''Create Rectangle'', [''x'', ''y'', ''width'', ''height'']),
      (''create_ellipse'', ''Create Ellipse'', [''x'', ''y'', ''width'', ''height'']),
      (''create_paragraph_style'', ''Create Paragraph Style'', [''name'']),
      (''create_character_style'', ''Create Character Style'', [''name'']),
      (''apply_paragraph_style'', ''Apply Paragraph Style'', [''styleName'', ''frameIndex'']),
      (''list_styles'', ''List Styles'', []),
      (''create_color_swatch'', ''Create Color Swatch'', [''name'', ''colorValues'']),
      (''list_color_swatches'', ''List Color Swatches'', []),
      (''apply_color'', ''Apply Color'', [''objectIndex'', ''swatchName'']),
      (''create_table'', ''Create Table'', [''x'', ''y'', ''width'', ''height'', ''rows'', ''columns'']),
      (''populate_table'', ''Populate Table'', [''tableIndex'', ''data'']),
      (''create_layer'', ''Create Layer'', [''name'']),
      (''set_active_layer'', ''Set Active Layer'', [''layerName'']),
      (''list_layers'', ''List Layers'', []),
      (''export_pdf'', ''Export PDF'', [''filePath'']),
      (''export_images'', ''Export Images'', [''folderPath'']),
      (''export_epub'', ''Export EPUB'', [''filePath'']),
      (''package_document'', ''Package Document'', [''folderPath'']),
      (''execute_indesign_code'', ''Execute Custom Code'', [''code'']),
      (''preflight_document'', ''Preflight Document'', []),
      (''view_document'', ''Document View'', []),
      (''zoom_to_page'', ''Zoom to Page'', []),
      (''data_merge'', ''Data Merge'', [''dataSourcePath'', ''outputFolder''])]"

definition required_params :: "string \<Rightarrow> string list" where
  "required_params name = (case map_of catalog name of None \<Rightarrow> [] | Some (label, req) \<Rightarrow> req)"

text \<open>\<^verbatim>\<open>deletePage\<close>: the script template, with \<^verbatim>\<open>${pageIndex}\<close> interpolated five times.\<close>

definition deletePage_script :: "jsvalue \<Rightarrow> string" where
  \<open>deletePage_script pageIndex =
     ''\<newline>'' @
     ''      if (app.documents.length === 0) {\<newline>'' @
     ''        "No document open";\<newline>'' @
     ''      } else {\<newline>'' @
     ''        var doc = app.activeDocument;\<newline>'' @
     ''        try {\<newline>'' @
     ''          if ('' @ js_to_string pageIndex @ '' >= doc.pages.length || '' @ js_to_string pageIndex @ '' < 0) {\<newline>'' @
     ''            "Invalid page index: '' @ js_to_string pageIndex @ ''. Document has " + doc.pages.length + " pages.";\<newline>'' @
     ''          } else if (doc.pages.length === 1) {\<newline>'' @
     ''            "Cannot delete the last page in the document.";\<newline>'' @
     ''          } else {\<newline>'' @
     ''            var pageToDelete = doc.pages['' @ js_to_string pageIndex @ ''];\<newline>'' @
     ''            pageToDelete.remove();\<newline>'' @
     ''            "Page " + ('' @ js_to_string pageIndex @ '' + 1) + " deleted. Remaining pages: " + doc.pages.length;\<newline>'' @
     ''          }\<newline>'' @
     ''        } catch (e) {\<newline>'' @
     ''          "Error deleting page: " + e.message;\<newline>'' @
     ''        }\<newline>'' @
     ''      }\<newline>'' @
     ''    ''\<close>

definition render_deletePage :: "args option \<Rightarrow> js_error + string" where
  "render_deletePage a =
     (case a of
        None \<Rightarrow> Inl (TypeError (DestructureUndefined ''pageIndex''))
      | Some m \<Rightarrow> Inr (deletePage_script (get_prop m ''pageIndex'')))"

definition deletePage :: "env \<Rightarrow> args option \<Rightarrow> world \<Rightarrow> (js_error + response) \<times> world" where
  "deletePage e a w = operation e ''Delete Page'' (render_deletePage a) w"

text \<open>
  \<^verbatim>\<open>colorValues.join(', ')\<close>: a method call on whatever the argument is. Only an array has
  the method; its \<^verbatim>\<open>undefined\<close> and \<^verbatim>\<open>null\<close> elements are rendered empty.
\<close>

definition js_join :: "string \<Rightarrow> jsvalue \<Rightarrow> string \<Rightarrow> js_error + string" where
  "js_join var v sep =
     (case v of
        JUndefined \<Rightarrow> Inl (TypeError (ReadPropertyOfNullish ''join''))
      | JNull \<Rightarrow> Inl (TypeError (ReadPropertyOfNullish ''join''))
      | JArr xs \<Rightarrow>
          Inr (join_with sep
                 (map (\<lambda>x. case x of JUndefined \<Rightarrow> [] | JNull \<Rightarrow> [] | _ \<Rightarrow> js_to_string x) xs))
      | _ \<Rightarrow> Inl (TypeError (NotAFunction (var @ ''.join''))))"

text \<open>\<^verbatim>\<open>createColorSwatch\<close>: the script template, \<open>joined\<close> being \<^verbatim>\<open>colorValues.join(', ')\<close>.\<close>

definition createColorSwatch_script :: "jsvalue \<Rightarrow> jsvalue \<Rightarrow> string \<Rightarrow> jsvalue \<Rightarrow> string" where
  \<open>createColorSwatch_script name colorModel joined spotColor =
     ''\<newline>'' @
     ''      if (app.documents.length === 0) {\<newline>'' @
     ''        "No document open";\<newline>'' @
     ''      } else {\<newline>'' @
     ''        var doc = app.activeDocument;\<newline>'' @
     ''        try {\<newline>'' @
     ''          var newColor;\<newline>'' @
     ''          \<newline>'' @
     ''          if ("'' @ js_to_string colorModel @ ''" === "CMYK") {\<newline>'' @
     ''            newColor = doc.colors.add();\<newline>'' @
     ''            newColor.name = "'' @ js_to_string name @ ''";\<newline>'' @
     ''            newColor.model = ColorModel.SPOT;\<newline>'' @
     ''            newColor.colorValue = ['' @ joined @ ''];\<newline>'' @
     ''            '' @ (if js_truthy spotColor then ''newColor.model = ColorModel.SPOT;'' else ''newColor.model = ColorModel.PROCESS;'') @ ''\<newline>'' @
     ''          } else if ("'' @ js_to_string colorModel @ ''" === "RGB") {\<newline>'' @
     ''            newColor = doc.colors.add();\<newline>'' @
     ''            newColor.name = "'' @ js_to_string name @ ''";\<newline>'' @
     ''            newColor.model = ColorModel.PROCESS;\<newline>'' @
     ''            newColor.space = ColorSpace.RGB;\<newline>'' @
     ''            newColor.colorValue = ['' @ joined @ ''];\<newline>'' @
     ''          }\<newline>'' @
     ''          \<newline>'' @
     ''          "Color swatch '' @ [CHR 0x27] @ js_to_string name @ [CHR 0x27] @ '' created ('' @ js_to_string colorModel @ '': '' @ joined @ '')";\<newline>'' @
     ''        } catch (e) {\<newline>'' @
     ''          "Error creating color swatch: " + e.message;\<newline>'' @
     ''        }\<newline>'' @
     ''      }\<newline>'' @
     ''    ''\<close>

definition render_createColorSwatch :: "args option \<Rightarrow> js_error + string" where
  "render_createColorSwatch a =
     (case a of
        None \<Rightarrow> Inl (TypeError (DestructureUndefined ''name''))
      | Some m \<Rightarrow>
          (let name = get_prop m ''name'';
               colorModel = prop_default m ''colorModel'' (JStr ''CMYK'');
               colorValues = get_prop m ''colorValues'';
               spotColor = prop_default m ''spotColor'' (JBool False)
           in case js_join ''colorValues'' colorValues '', '' of
                Inl err \<Rightarrow> Inl err
              | Inr joined \<Rightarrow> Inr (createColorSwatch_script name colorModel joined spotColor)))"

definition createColorSwatch :: "env \<Rightarrow> args option \<Rightarrow> world \<Rightarrow> (js_error + response) \<times> world" where
  "createColorSwatch e a w = operation e ''Create Color Swatch'' (render_createColorSwatch a) w"

text \<open>\<^verbatim>\<open>executeInDesignCode\<close>: the caller's code is the script.\<close>

definition executeInDesignCode :: "env \<Rightarrow> jsvalue \<Rightarrow> world \<Rightarrow> (js_error + response) \<times> world" where
  "executeInDesignCode e code w = run_script e ''Execute Custom Code'' code w"

text \<open>
  \<^verbatim>\<open>createTextFrame\<close>: the expression that embeds the content in the script,
  \<^verbatim>\<open>content.replace(/"/g, '\\"').replace(/\n/g, '\\n')\<close>, and the literal it is placed in,
  \<^verbatim>\<open>textFrame.contents = "...";\<close>.
\<close>

definition escape_content :: "string \<Rightarrow> string" where
  "escape_content txt =
     replace_all (CHR 0x0A) [CHR 0x5C, CHR ''n'']
       (replace_all (CHR 0x22) [CHR 0x5C, CHR 0x22] txt)"

definition contents_literal :: "string \<Rightarrow> string" where
  "contents_literal txt = [CHR 0x22] @ escape_content txt @ [CHR 0x22]"

section \<open>The request handler\<close>

text \<open>
  The \<^verbatim>\<open>switch\<close> on the tool name. The three methods embedded above are called as the
  source calls them; every other method of the catalog has the same shape (render the
  script from the arguments, run it, format the result under the label), its script
  given by \<open>otherScript\<close>. \<^verbatim>\<open>args.code\<close> throws when the request has no arguments.
\<close>

definition dispatch :: "env \<Rightarrow> string \<Rightarrow> args option \<Rightarrow> world \<Rightarrow> (js_error + response) \<times> world" where
  "dispatch e name a w =
     (if name = ''delete_page'' then deletePage e a w
      else if name = ''create_color_swatch'' then createColorSwatch e a w
      else if name = ''execute_indesign_code'' then
        (case a of
           None \<Rightarrow> (Inl (TypeError (ReadPropertyOfNullish ''code'')), w)
         | Some m \<Rightarrow> executeInDesignCode e (get_prop m ''code'') w)
      else
        (case map_of catalog name of
           Some (label, req) \<Rightarrow> operation e label (otherScript e name a) w
         | None \<Rightarrow> (Inl (McpError MethodNotFound (''Unknown tool: '' @ name)), w)))"

text \<open>The handler: the \<^verbatim>\<open>switch\<close> is inside a \<^verbatim>\<open>try\<close> whose \<^verbatim>\<open>catch\<close> rethrows every error.\<close>

definition handler :: "env \<Rightarrow> string \<Rightarrow> args option \<Rightarrow> world \<Rightarrow> (js_error + response) \<times> world" where
  "handler e name a w =
     (case dispatch e name a w of
        (Inl err, w') \<Rightarrow>
          (Inl (McpError InternalError (''Error executing tool '' @ name @ '': '' @ message e err)), w')
      | (Inr r, w') \<Rightarrow> (Inr r, w'))"

section \<open>The scripting engine's side\<close>

text \<open>
  How the engine reads the body of a double-quoted string literal (ECMAScript, string
  literals): a backslash and a single escape character stand for one character, a backslash
  and any other character for that character; an unescaped double quote or line terminator
  cannot occur inside the body, nor a backslash at its end. \<open>None\<close> says that the text is not
  the body of one literal this model reads; that includes the numeric escapes (octal,
  \<^verbatim>\<open>\x\<close>, \<^verbatim>\<open>\u\<close>) and an escaped line terminator, which are left out.
\<close>

definition escape_value :: "char \<Rightarrow> char option" where
  "escape_value d =
     (if d = CHR ''b'' then Some (CHR 0x08)
      else if d = CHR ''t'' then Some (CHR 0x09)
      else if d = CHR ''n'' then Some (CHR 0x0A)
      else if d = CHR ''v'' then Some (CHR 0x0B)
      else if d = CHR ''f'' then Some (CHR 0x0C)
      else if d = CHR ''r'' then Some (CHR 0x0D)
      else if d \<in> set ''0123456789xu'' \<or> d = CHR 0x0A \<or> d = CHR 0x0D then None
      else Some d)"

fun js_unescape :: "string \<Rightarrow> string option" where
  "js_unescape [] = Some []"
| "js_unescape [c] =
     (if c = CHR 0x5C \<or> c = CHR 0x22 \<or> c = CHR 0x0A \<or> c = CHR 0x0D then None else Some [c])"
| "js_unescape (c # d # cs) =
     (if c = CHR 0x5C then
        (case escape_value d of
           None \<Rightarrow> None
         | Some v \<Rightarrow> map_option ((#) v) (js_unescape cs))
      else if c = CHR 0x22 \<or> c = CHR 0x0A \<or> c = CHR 0x0D then None
      else map_option ((#) c) (js_unescape (d # cs)))"

text \<open>The value of a whole literal: the body between its two double quotes.\<close>

definition js_read_literal :: "string \<Rightarrow> string option" where
  "js_read_literal s =
     (case s of
        [] \<Rightarrow> None
      | q # rest \<Rightarrow>
          (if q = CHR 0x22 \<and> rest \<noteq> [] \<and> last rest = CHR 0x22 then js_unescape (butlast rest)
           else None))"


text \<open>
  A value thrown inside the engine, as the scripts read it: its \<^verbatim>\<open>message\<close> and
  \<^verbatim>\<open>line\<close> properties.
\<close>

record js_exception =
  exc_message :: jsvalue
  exc_line :: jsvalue


text \<open>
  The application, as far as the two embedded scripts use it: what they read of its state
  \<open>'h\<close> (\<^verbatim>\<open>app.documents.length\<close>, and \<^verbatim>\<open>doc.pages.length\<close> of the active document) and the
  calls by which they change it. A call leaves a state and may throw.
\<close>

datatype color_model = SPOT | PROCESS

datatype color_space = RGB

datatype dom_call =
    PageRemove int
  | ColorsAdd
  | SetName string
  | SetModel color_model
  | SetSpace color_space
  | SetColorValue "int list"

record 'h host =
  documents_length :: "'h \<Rightarrow> nat"
  pages_length :: "'h \<Rightarrow> nat"
  dom :: "dom_call \<Rightarrow> 'h \<Rightarrow> js_exception option \<times> 'h"

text \<open>Statements in sequence, up to the first that throws.\<close>

fun run_calls :: "'h host \<Rightarrow> dom_call list \<Rightarrow> 'h \<Rightarrow> js_exception option \<times> 'h" where
  "run_calls H [] h = (None, h)"
| "run_calls H (c # cs) h =
     (case dom H c h of
        (Some x, h') \<Rightarrow> (Some x, h')
      | (None, h') \<Rightarrow> run_calls H cs h')"


text \<open>
  What the script \<open>createColorSwatch_script (JStr name) (JStr colorModel) joined spotColor\<close>
  computes, \<open>joined\<close> being the numbers \<open>colorValues\<close> joined. The name and the colour model
  are pasted between double quotes as they are, so the engine reads them as literal
  bodies: the script is one of this shape only when each pasted text is the body of one
  literal (\<open>None\<close> otherwise), and it works with the values the literals denote.
\<close>

definition createColorSwatch_jsx ::
  "'h host \<Rightarrow> string \<Rightarrow> string \<Rightarrow> int list \<Rightarrow> bool \<Rightarrow> 'h \<Rightarrow> ((js_exception + string) \<times> 'h) option" where
  "createColorSwatch_jsx H name colorModel colorValues spotColor h =
     (case (js_unescape colorModel, js_unescape name,
            js_unescape (''Color swatch '' @ [CHR 0x27] @ name @ [CHR 0x27] @ '' created ('' @
                         colorModel @ '': '' @ join_with '', '' (map show_int colorValues) @ '')'')) of
        (Some cm, Some nm, Some created) \<Rightarrow>
          Some
            (if documents_length H h = 0 then (Inr ''No document open'', h)
             else
               (case run_calls H
                       (if cm = ''CMYK'' then
                          [ColorsAdd, SetName nm, SetModel SPOT, SetColorValue colorValues,
                           SetModel (if spotColor then SPOT else PROCESS)]
                        else if cm = ''RGB'' then
                          [ColorsAdd, SetName nm, SetModel PROCESS, SetSpace RGB,
                           SetColorValue colorValues]
                        else []) h of
                  (Some e, h') \<Rightarrow>
                    (Inr (''Error creating color swatch: '' @ js_to_string (exc_message e)), h')
                | (None, h') \<Rightarrow> (Inr created, h')))
      | _ \<Rightarrow> None)"

section \<open>Concrete environments\<close>

text \<open>
  An environment to run the model in: a module directory, a file system that accepts
  every write, the messages V8 and the SDK give, and a child process whose behaviour is
  chosen: it prints a text, or it fails with a message (as on a timeout), in both cases
  leaving the files alone.
\<close>

definition exec_returns :: "string \<Rightarrow> string \<Rightarrow> execopts \<Rightarrow> fs \<Rightarrow> fs \<times> (string + string)" where
  "exec_returns out cmd opts f = (f, Inr out)"

definition exec_throws :: "string \<Rightarrow> string \<Rightarrow> execopts \<Rightarrow> fs \<Rightarrow> fs \<times> (string + string)" where
  "exec_throws m cmd opts f = (f, Inl m)"

definition v8_message :: "type_error \<Rightarrow> string" where
  "v8_message t =
     (case t of
        DestructureUndefined k \<Rightarrow>
          ''Cannot destructure property '' @ [CHR 0x27] @ k @ [CHR 0x27] @ '' of '' @
          [CHR 0x27] @ ''args'' @ [CHR 0x27] @ '' as it is undefined.''
      | ReadPropertyOfNullish k \<Rightarrow>
          ''Cannot read properties of undefined (reading '' @ [CHR 0x27] @ k @ [CHR 0x27] @ '')''
      | NotAFunction f \<Rightarrow> f @ '' is not a function'')"

definition sdk_message :: "ErrorCode \<Rightarrow> string \<Rightarrow> string" where
  "sdk_message c m =
     ''MCP error '' @ (case c of MethodNotFound \<Rightarrow> ''-32601'' | InternalError \<Rightarrow> ''-32603'') @
     '': '' @ m"

definition no_write_error :: "string \<Rightarrow> fs \<Rightarrow> string option" where
  "no_write_error p f = None"

definition no_other_script :: "string \<Rightarrow> args option \<Rightarrow> js_error + string" where
  "no_other_script name a = Inr []"

definition example_env :: "(string \<Rightarrow> execopts \<Rightarrow> fs \<Rightarrow> fs \<times> (string + string)) \<Rightarrow> env" where
  "example_env exec =
     \<lparr>dirname = ''/srv/indesign'',
      execSync = exec,
      writeError = no_write_error,
      typeErrorMessage = v8_message,
      mcpMessage = sdk_message,
      otherScript = no_other_script\<rparr>"

definition world0 :: world where
  "world0 = \<lparr>files = Map.empty, trace = []\<rparr>"

text \<open>The paths a trace writes to, in order.\<close>

fun written_paths :: "event list \<Rightarrow> string list" where
  "written_paths [] = []"
| "written_paths (WriteFile p c # evs) = p # written_paths evs"
| "written_paths (ev # evs) = written_paths evs"

text \<open>
  An application state to run the scripts in: the open documents, the active one first,
  each with its number of pages and the names of its swatches.
\<close>

record doc_state =
  page_count :: nat
  swatches :: "string list"

fun example_dom :: "dom_call \<Rightarrow> doc_state list \<Rightarrow> js_exception option \<times> doc_state list" where
  "example_dom c [] = (Some \<lparr>exc_message = JStr ''No documents are open.'', exc_line = JUndefined\<rparr>, [])"
| "example_dom (PageRemove i) (d # ds) = (None, d\<lparr>page_count := page_count d - 1\<rparr> # ds)"
| "example_dom ColorsAdd (d # ds) = (None, d\<lparr>swatches := swatches d @ [''New Color Swatch'']\<rparr> # ds)"
| "example_dom (SetName n) (d # ds) = (None, d\<lparr>swatches := butlast (swatches d) @ [n]\<rparr> # ds)"
| "example_dom c (d # ds) = (None, d # ds)"

definition active_pages :: "doc_state list \<Rightarrow> nat" where
  "active_pages h = (case h of [] \<Rightarrow> 0 | d # ds \<Rightarrow> page_count d)"

definition example_host :: "doc_state list host" where
  "example_host = \<lparr>documents_length = length, pages_length = active_pages, dom = example_dom\<rparr>"

section \<open>The transport\<close>

lemma executeAppleScript_eq:
  "executeAppleScript e s w =
     ((case snd (execSync e (osascript_command s) \<lparr>encoding = ''utf8'', timeout = 30000\<rparr> (files w)) of
         Inl m \<Rightarrow> Inl (Error (''AppleScript execution failed: '' @ m))
       | Inr out \<Rightarrow> Inr (trim out)),
      \<lparr>files = fst (execSync e (osascript_command s) \<lparr>encoding = ''utf8'', timeout = 30000\<rparr> (files w)),
       trace = trace w @ [ExecSync (osascript_command s) \<lparr>encoding = ''utf8'', timeout = 30000\<rparr>]\<rparr>)"
  by (simp add: executeAppleScript_def Let_def split: prod.splits sum.splits)

text \<open>When the write itself throws, nothing was created and nothing else happens.\<close>

lemma executeInDesignScript_write_failure:
  assumes "writeError e (tempScript e) (files w) = Some m"
  shows "executeInDesignScript e script w = (Inl (Error m), w)"
  using assms by (simp add: executeInDesignScript_def writeFileSync_def)

lemma executeInDesignScript_result:
  assumes "writeError e (tempScript e) (files w) = None"
  shows "fst (executeInDesignScript e script w) =
           fst (executeAppleScript e (appleScript (tempScript e))
                  \<lparr>files = (files w)(tempScript e \<mapsto> wrappedScript script),
                   trace = trace w @ [WriteFile (tempScript e) (wrappedScript script)]\<rparr>)"
  using assms
  by (simp add: executeInDesignScript_def writeFileSync_def Let_def split: prod.splits)

lemma executeInDesignScript_trace:
  assumes "writeError e (tempScript e) (files w) = None"
  shows "\<exists>rest. trace (snd (executeInDesignScript e script w)) =
           trace w @ WriteFile (tempScript e) (wrappedScript script) #
             ExecSync (osascript_command (appleScript (tempScript e)))
               \<lparr>encoding = ''utf8'', timeout = 30000\<rparr> # rest
           \<and> (rest = [] \<or> rest = [Unlink (tempScript e)])"
  using assms
  by (simp add: executeInDesignScript_def writeFileSync_def Let_def executeAppleScript_eq unlinkSync_def)

lemma executeInDesignScript_removes:
  assumes "writeError e (tempScript e) (files w) = None"
  shows "files (snd (executeInDesignScript e script w)) (tempScript e) = None"
  using assms
  by (simp add: executeInDesignScript_def writeFileSync_def existsSync_def unlinkSync_def Let_def
      split: prod.splits)

lemma run_script_world: "snd (run_script e l s w) = snd (executeInDesignScript e s w)"
  by (simp add: run_script_def split: prod.splits sum.splits)

lemma handler_world: "snd (handler e name a w) = snd (dispatch e name a w)"
  by (simp add: handler_def split: prod.splits sum.splits)

text \<open>
  C1. Whatever the outer automation call does (return a text, throw on a spawn failure or
  a non-zero exit, throw on the timeout: every behaviour of \<open>execSync e\<close>), once
  \<^verbatim>\<open>executeInDesignScript\<close> has written its temporary script file, the file is gone from the
  file system when the function returns or throws.
\<close>

theorem temp_file_removed_on_every_exit:
  assumes "writeError e (tempScript e) (files w) = None"
  shows "files (snd (executeInDesignScript e script w)) (tempScript e) = None"
  using assms
  by (simp add: executeInDesignScript_def writeFileSync_def existsSync_def unlinkSync_def Let_def
      split: prod.splits)

text \<open>The timeout path: the outer call throws and leaves the file in place; it is removed.\<close>

theorem temp_file_removed_on_every_exit_witness:
  "writeError (example_env (exec_throws ''spawnSync /bin/sh ETIMEDOUT'')) (tempScript (example_env (exec_throws ''spawnSync /bin/sh ETIMEDOUT''))) (files world0) = None
   \<and> fst (executeInDesignScript (example_env (exec_throws ''spawnSync /bin/sh ETIMEDOUT'')) (JStr ''app.documents.length;'') world0)
       = Inl (Error ''AppleScript execution failed: spawnSync /bin/sh ETIMEDOUT'')
   \<and> files (snd (executeInDesignScript (example_env (exec_throws ''spawnSync /bin/sh ETIMEDOUT'')) (JStr ''app.documents.length;'') world0)) (tempScript (example_env (exec_throws ''spawnSync /bin/sh ETIMEDOUT''))) = None"
  using temp_file_removed_on_every_exit [of "(example_env (exec_throws ''spawnSync /bin/sh ETIMEDOUT''))" world0 "JStr ''app.documents.length;''"]
  by (simp add: example_env_def no_write_error_def executeInDesignScript_result executeAppleScript_eq
      exec_throws_def)

text \<open>
  For every request, on every path (the write failing included): when the temporary path
  was free before the request, it is free after it.
\<close>

lemma executeInDesignScript_leaves_no_file:
  assumes "files w (tempScript e) = None"
  shows "files (snd (executeInDesignScript e script w)) (tempScript e) = None"
proof (cases "writeError e (tempScript e) (files w)")
  case None
  then show ?thesis by (rule executeInDesignScript_removes)
next
  case (Some m)
  then show ?thesis using assms by (simp add: executeInDesignScript_write_failure)
qed

lemma handler_leaves_no_file:
  assumes "files w (tempScript e) = None"
  shows "files (snd (handler e name a w)) (tempScript e) = None"
  using assms executeInDesignScript_leaves_no_file [OF assms]
  by (simp add: handler_world dispatch_def deletePage_def createColorSwatch_def
      executeInDesignCode_def operation_def run_script_world split: option.splits sum.splits prod.splits)

lemma written_paths_append: "written_paths (xs @ ys) = written_paths xs @ written_paths ys"
  by (induction xs rule: written_paths.induct) simp_all

lemma executeInDesignScript_written:
  "written_paths (trace (snd (executeInDesignScript e script w))) = written_paths (trace w)
   \<or> written_paths (trace (snd (executeInDesignScript e script w))) =
       written_paths (trace w) @ [tempScript e]"
  by (simp add: executeInDesignScript_def writeFileSync_def Let_def executeAppleScript_eq
      unlinkSync_def written_paths_append split: option.splits)

lemma operation_written:
  "written_paths (trace (snd (operation e l r w))) = written_paths (trace w)
   \<or> written_paths (trace (snd (operation e l r w))) = written_paths (trace w) @ [tempScript e]"
  using executeInDesignScript_written
  by (simp add: operation_def run_script_world split: sum.splits)

lemma dispatch_written:
  "written_paths (trace (snd (dispatch e name a w))) = written_paths (trace w)
   \<or> written_paths (trace (snd (dispatch e name a w))) = written_paths (trace w) @ [tempScript e]"
  using operation_written executeInDesignScript_written
  by (simp add: dispatch_def deletePage_def createColorSwatch_def executeInDesignCode_def
      run_script_world split: option.splits prod.splits)

text \<open>
  C2, as the code has it. The temporary file's path does not depend on the request: a request
  writes no file, or it writes one file, at the fixed path \<open>tempScript e\<close>, which is
  \<^verbatim>\<open>temp_script.jsx\<close> in the module's directory.
\<close>

theorem temp_path_is_fixed:
  "(written_paths (trace (snd (handler e name a w))) = written_paths (trace w)
    \<or> written_paths (trace (snd (handler e name a w))) = written_paths (trace w) @ [tempScript e])
   \<and> tempScript e = path_join (dirname e) ''temp_script.jsx''"
  using dispatch_written by (simp add: handler_world tempScript_def)

text \<open>
  C2, as stated, fails: two different requests, one after the other, write to the same path.
\<close>

theorem two_requests_share_the_path:
  "written_paths
     (trace (snd (handler (example_env (exec_returns ''ok'')) ''execute_indesign_code'' (Some [''code'' \<mapsto> JStr ''app.documents.length;''])
                    (snd (handler (example_env (exec_returns ''ok'')) ''delete_page'' (Some [''pageIndex'' \<mapsto> JNum 0]) world0)))))
   = [''/srv/indesign/temp_script.jsx'', ''/srv/indesign/temp_script.jsx'']"
  by (simp add: handler_world dispatch_def deletePage_def render_deletePage_def operation_def
      executeInDesignCode_def run_script_world get_prop_def executeInDesignScript_def
      writeFileSync_def Let_def executeAppleScript_eq example_env_def exec_returns_def
      no_write_error_def world0_def tempScript_def path_join_def existsSync_def unlinkSync_def
      written_paths_append)

text \<open>
  C7. The outer call is issued with the fixed timeout of 30000 milliseconds, and when it
  throws (spawn failure, non-zero exit, timeout) \<^verbatim>\<open>executeAppleScript\<close> throws an error that
  carries the diagnostic; it does not return a text.
\<close>

theorem transport_failure_is_thrown:
  assumes "snd (execSync e (osascript_command script) \<lparr>encoding = ''utf8'', timeout = 30000\<rparr>
                  (files w)) = Inl m"
  shows "fst (executeAppleScript e script w) = Inl (Error (''AppleScript execution failed: '' @ m))
       \<and> trace (snd (executeAppleScript e script w)) =
           trace w @ [ExecSync (osascript_command script) \<lparr>encoding = ''utf8'', timeout = 30000\<rparr>]"
  using assms by (simp add: executeAppleScript_eq)

theorem transport_failure_is_thrown_witness:
  "snd (execSync (example_env (exec_throws ''spawnSync /bin/sh ETIMEDOUT'')) (osascript_command ''return 1'') \<lparr>encoding = ''utf8'', timeout = 30000\<rparr>
          (files world0)) = Inl ''spawnSync /bin/sh ETIMEDOUT''
   \<and> fst (executeAppleScript (example_env (exec_throws ''spawnSync /bin/sh ETIMEDOUT'')) ''return 1'' world0)
       = Inl (Error ''AppleScript execution failed: spawnSync /bin/sh ETIMEDOUT'')"
  using transport_failure_is_thrown [of "(example_env (exec_throws ''spawnSync /bin/sh ETIMEDOUT''))" "''return 1''" world0 "''spawnSync /bin/sh ETIMEDOUT''"]
  by (simp add: example_env_def exec_throws_def)

text \<open>The caller of the handler receives it as an internal error with the same diagnostic.\<close>

lemma handler_transport_failure:
  assumes "writeError e (tempScript e) (files w) = None"
    and "snd (execSync e (osascript_command (appleScript (tempScript e)))
                \<lparr>encoding = ''utf8'', timeout = 30000\<rparr>
                ((files w)(tempScript e \<mapsto> wrappedScript (get_prop m ''code'')))) = Inl d"
  shows "fst (handler e ''execute_indesign_code'' (Some m) w) =
           Inl (McpError InternalError
                  (''Error executing tool execute_indesign_code: AppleScript execution failed: '' @ d))"
  using assms
  by (simp add: handler_def dispatch_def executeInDesignCode_def run_script_def message_def
      executeInDesignScript_def writeFileSync_def Let_def executeAppleScript_eq split: prod.splits)

section \<open>What the caller receives\<close>

text \<open>
  C3, as the code has it. There is no classification step: whatever text the outer call
  prints, beginning with \<^verbatim>\<open>ERROR: \<close> or not, \<^verbatim>\<open>executeInDesignScript\<close> returns it with the
  surrounding white space trimmed, and the tool method returns the normal response whose
  text is the method's label, a colon and that text.
\<close>

theorem returned_text_is_not_classified:
  assumes "writeError e (tempScript e) (files w) = None"
    and "snd (execSync e (osascript_command (appleScript (tempScript e)))
                \<lparr>encoding = ''utf8'', timeout = 30000\<rparr>
                ((files w)(tempScript e \<mapsto> wrappedScript script))) = Inr out"
  shows "fst (executeInDesignScript e script w) = Inr (trim out)
       \<and> fst (run_script e label script w) =
           Inr \<lparr>content = [\<lparr>block_type = ''text'', block_text = label @ '': '' @ trim out\<rparr>]\<rparr>"
  using assms
  by (simp add: run_script_def formatResponse_def executeInDesignScript_def writeFileSync_def
      Let_def executeAppleScript_eq split: prod.splits)

theorem returned_text_is_not_classified_witness:
  \<open>writeError (example_env (exec_returns ''ERROR: boom (Line: 3)\<newline>'')) (tempScript (example_env (exec_returns ''ERROR: boom (Line: 3)\<newline>''))) (files world0) = None
   \<and> snd (execSync (example_env (exec_returns ''ERROR: boom (Line: 3)\<newline>'')) (osascript_command (appleScript (tempScript (example_env (exec_returns ''ERROR: boom (Line: 3)\<newline>'')))))
            \<lparr>encoding = ''utf8'', timeout = 30000\<rparr>
            ((files world0)(tempScript (example_env (exec_returns ''ERROR: boom (Line: 3)\<newline>'')) \<mapsto> wrappedScript (JStr ''throw new Error("boom");''))))
       = Inr ''ERROR: boom (Line: 3)\<newline>''
   \<and> fst (run_script (example_env (exec_returns ''ERROR: boom (Line: 3)\<newline>'')) ''Execute Custom Code'' (JStr ''throw new Error("boom");'') world0) =
       Inr \<lparr>content = [\<lparr>block_type = ''text'',
                           block_text = ''Execute Custom Code: ERROR: boom (Line: 3)''\<rparr>]\<rparr>\<close>
  using returned_text_is_not_classified
    [of "(example_env (exec_returns ''ERROR: boom (Line: 3)\<newline>''))" world0 \<open>JStr ''throw new Error("boom");''\<close> \<open>''ERROR: boom (Line: 3)\<newline>''\<close>
        "''Execute Custom Code''"]
  by (simp add: example_env_def exec_returns_def no_write_error_def trim_def js_ws_def)

text \<open>
  C3, as stated, fails: the text the transport returns begins with the sentinel, and the
  caller receives it in a normal response, not as an error.
\<close>

theorem engine_error_returned_as_success:
  \<open>fst (executeInDesignScript (example_env (exec_returns ''ERROR: boom (Line: 3)\<newline>'')) (JStr ''throw new Error("boom");'') world0)
     = Inr ''ERROR: boom (Line: 3)''
   \<and> fst (handler (example_env (exec_returns ''ERROR: boom (Line: 3)\<newline>'')) ''execute_indesign_code''
            (Some [''code'' \<mapsto> JStr ''throw new Error("boom");'']) world0)
       = Inr \<lparr>content = [\<lparr>block_type = ''text'',
                            block_text = ''Execute Custom Code: ERROR: boom (Line: 3)''\<rparr>]\<rparr>\<close>
  by (simp add: handler_def dispatch_def executeInDesignCode_def run_script_def formatResponse_def
      get_prop_def executeInDesignScript_def writeFileSync_def Let_def executeAppleScript_eq
      example_env_def exec_returns_def no_write_error_def world0_def trim_def js_ws_def)

text \<open>
  C4, as the code has it. The handler does not look at the schema's required parameters.
  A \<^verbatim>\<open>delete_page\<close> request without \<^verbatim>\<open>pageIndex\<close> reaches the transport: the script is
  rendered with \<^verbatim>\<open>undefined\<close> for the index, written to the temporary file, and the outer
  call is issued. A \<^verbatim>\<open>create_color_swatch\<close> request without \<^verbatim>\<open>colorValues\<close> fails while the
  script is rendered, and is rejected with an internal error before anything is written.
\<close>

theorem required_parameters_are_not_checked:
  "(m ''pageIndex'' = None \<and> writeError e (tempScript e) (files w) = None \<longrightarrow>
      (\<exists>rest. trace (snd (handler e ''delete_page'' (Some m) w)) =
         trace w @ WriteFile (tempScript e) (wrappedScript (JStr (deletePage_script JUndefined))) #
           ExecSync (osascript_command (appleScript (tempScript e)))
             \<lparr>encoding = ''utf8'', timeout = 30000\<rparr> # rest))
   \<and> (m' ''colorValues'' = None \<longrightarrow>
        handler e ''create_color_swatch'' (Some m') w =
          (Inl (McpError InternalError
                  (''Error executing tool create_color_swatch: '' @
                   typeErrorMessage e (ReadPropertyOfNullish ''join''))), w))"
proof (intro conjI impI)
  assume a: "m ''pageIndex'' = None \<and> writeError e (tempScript e) (files w) = None"
  then have "get_prop m ''pageIndex'' = JUndefined"
    by (simp add: get_prop_def)
  with a executeInDesignScript_trace [of e w "JStr (deletePage_script JUndefined)"]
  show "\<exists>rest. trace (snd (handler e ''delete_page'' (Some m) w)) =
         trace w @ WriteFile (tempScript e) (wrappedScript (JStr (deletePage_script JUndefined))) #
           ExecSync (osascript_command (appleScript (tempScript e)))
             \<lparr>encoding = ''utf8'', timeout = 30000\<rparr> # rest"
    by (auto simp add: handler_world dispatch_def deletePage_def render_deletePage_def
        operation_def run_script_world)
next
  assume "m' ''colorValues'' = None"
  then show "handler e ''create_color_swatch'' (Some m') w =
          (Inl (McpError InternalError
                  (''Error executing tool create_color_swatch: '' @
                   typeErrorMessage e (ReadPropertyOfNullish ''join''))), w)"
    by (simp add: handler_def dispatch_def createColorSwatch_def render_createColorSwatch_def
        operation_def get_prop_def js_join_def message_def Let_def)
qed

theorem required_parameters_are_not_checked_witness:
  "(Map.empty ''pageIndex'' = (None :: jsvalue option)
    \<and> writeError (example_env (exec_returns ''ok'')) (tempScript (example_env (exec_returns ''ok''))) (files world0) = None)
   \<and> (\<exists>rest. trace (snd (handler (example_env (exec_returns ''ok'')) ''delete_page'' (Some Map.empty) world0)) =
         trace world0 @
         WriteFile (tempScript (example_env (exec_returns ''ok''))) (wrappedScript (JStr (deletePage_script JUndefined))) #
           ExecSync (osascript_command (appleScript (tempScript (example_env (exec_returns ''ok'')))))
             \<lparr>encoding = ''utf8'', timeout = 30000\<rparr> # rest)
   \<and> [''name'' \<mapsto> JStr ''Red''] ''colorValues'' = None
   \<and> handler (example_env (exec_returns ''ok'')) ''create_color_swatch'' (Some [''name'' \<mapsto> JStr ''Red'']) world0 =
          (Inl (McpError InternalError
                  (''Error executing tool create_color_swatch: '' @
                   typeErrorMessage (example_env (exec_returns ''ok'')) (ReadPropertyOfNullish ''join''))), world0)"
  using required_parameters_are_not_checked
    [of Map.empty "(example_env (exec_returns ''ok''))" world0 "[''name'' \<mapsto> JStr ''Red'']"]
  by (simp add: example_env_def no_write_error_def)

text \<open>
  C4, as stated, fails: \<^verbatim>\<open>pageIndex\<close> is declared required for \<^verbatim>\<open>delete_page\<close>, the mapping
  lacks it, and the request writes the temporary file and issues the outer call.
\<close>

theorem missing_required_reaches_transport:
  "''pageIndex'' \<in> set (required_params ''delete_page'')
   \<and> Map.empty ''pageIndex'' = (None :: jsvalue option)
   \<and> trace (snd (handler (example_env (exec_returns ''ok'')) ''delete_page'' (Some Map.empty) world0)) =
       [WriteFile ''/srv/indesign/temp_script.jsx'' (wrappedScript (JStr (deletePage_script JUndefined))),
        ExecSync (osascript_command (appleScript ''/srv/indesign/temp_script.jsx''))
          \<lparr>encoding = ''utf8'', timeout = 30000\<rparr>,
        Unlink ''/srv/indesign/temp_script.jsx'']"
  by (simp add: required_params_def catalog_def handler_world dispatch_def deletePage_def
      render_deletePage_def operation_def run_script_world get_prop_def executeInDesignScript_def
      writeFileSync_def Let_def executeAppleScript_eq example_env_def exec_returns_def
      no_write_error_def world0_def tempScript_def path_join_def existsSync_def unlinkSync_def)

text \<open>
  An unknown tool name: the \<^verbatim>\<open>default\<close> branch throws \<^verbatim>\<open>MethodNotFound\<close> inside the
  handler's own \<^verbatim>\<open>try\<close>, so the \<^verbatim>\<open>catch\<close> rethrows it as an internal error. Nothing is
  written and no call is issued.
\<close>

lemma unknown_tool:
  assumes "map_of catalog name = None"
  shows "handler e name a w =
     (Inl (McpError InternalError
             (''Error executing tool '' @ name @ '': '' @
              mcpMessage e MethodNotFound (''Unknown tool: '' @ name))), w)"
proof -
  have "name \<noteq> ''delete_page''" "name \<noteq> ''create_color_swatch''"
    "name \<noteq> ''execute_indesign_code''"
    using assms by (auto simp: catalog_def)
  then show ?thesis
    using assms by (simp add: handler_def dispatch_def message_def)
qed

text \<open>
  C5. The tool name \<^verbatim>\<open>frobnicate\<close> is not in the catalog; the caller receives an error
  with the code \<^verbatim>\<open>InternalError\<close>, not \<^verbatim>\<open>MethodNotFound\<close>, and the world is unchanged (no
  temporary file, no outer call).
\<close>

theorem unknown_tool_is_internal_error:
  "map_of catalog ''frobnicate'' = None
   \<and> handler (example_env (exec_returns ''ok'')) ''frobnicate'' (Some Map.empty) world0 =
     (Inl (McpError InternalError
             ''Error executing tool frobnicate: MCP error -32601: Unknown tool: frobnicate''),
      world0)"
  by (simp add: catalog_def handler_def dispatch_def message_def example_env_def sdk_message_def)



section \<open>String literals in the rendered scripts\<close>

lemma js_unescape_ordinary:
  assumes "c \<noteq> CHR 0x5C" "c \<noteq> CHR 0x22" "c \<noteq> CHR 0x0A" "c \<noteq> CHR 0x0D"
  shows "js_unescape (c # cs) = map_option ((#) c) (js_unescape cs)"
  using assms by (cases cs) simp_all

lemma js_unescape_escaped:
  assumes "escape_value d = Some v"
  shows "js_unescape (CHR 0x5C # d # cs) = map_option ((#) v) (js_unescape cs)"
  using assms by simp










text \<open>
  The content of a text frame: a double quote and a line feed are escaped, one character
  at a time. A content without a backslash and without a carriage return is read back
  by the engine as it was.
\<close>

lemma escape_content_Cons:
  "escape_content (c # cs) =
     (if c = CHR 0x22 then [CHR 0x5C, CHR 0x22]
      else if c = CHR 0x0A then [CHR 0x5C, CHR ''n'']
      else [c]) @ escape_content cs"
  by (simp add: escape_content_def)

lemma roundtrip_without_backslash:
  assumes "CHR 0x5C \<notin> set s" and "CHR 0x0D \<notin> set s"
  shows "js_unescape (escape_content s) = Some s"
  using assms
proof (induction s)
  case Nil
  then show ?case by (simp add: escape_content_def)
next
  case (Cons c s)
  then have ih: "js_unescape (escape_content s) = Some s" by simp
  from Cons.prems have c: "c \<noteq> CHR 0x5C" "c \<noteq> CHR 0x0D" by auto
  show ?case
  proof (cases "c = CHR 0x22")
    case True
    then show ?thesis by (simp add: escape_content_Cons escape_value_def ih)
  next
    case q: False
    show ?thesis
    proof (cases "c = CHR 0x0A")
      case True
      then show ?thesis by (simp add: escape_content_Cons escape_value_def ih)
    next
      case False
      with q c show ?thesis by (simp add: escape_content_Cons js_unescape_ordinary ih)
    qed
  qed
qed

lemma read_contents_literal: "js_read_literal (contents_literal s) = js_unescape (escape_content s)"
  by (simp add: js_read_literal_def contents_literal_def)

text \<open>
  C6. A backslash in the content is not escaped. The content \<^verbatim>\<open>\n\<close> (a backslash and the
  letter n) is embedded unchanged, and the engine reads the literal as one line feed; the
  content of a single backslash leaves a literal that does not end.
\<close>

theorem backslash_is_not_escaped:
  "escape_content [CHR 0x5C, CHR ''n''] = [CHR 0x5C, CHR ''n'']
   \<and> js_read_literal (contents_literal [CHR 0x5C, CHR ''n'']) = Some [CHR 0x0A]
   \<and> js_read_literal (contents_literal [CHR 0x5C]) = None"
  by (simp add: js_read_literal_def contents_literal_def escape_content_def escape_value_def)

section \<open>The scripts in the application\<close>



text \<open>
  The arguments of a \<^verbatim>\<open>create_color_swatch\<close> request with a name, a colour model and an
  array of numbers render to the script whose meaning \<open>createColorSwatch_jsx\<close> gives.
\<close>

lemma render_createColorSwatch_numbers:
  assumes "m ''name'' = Some (JStr name)" and "m ''colorModel'' = Some (JStr model)"
    and "m ''colorValues'' = Some (JArr (map JNum vs))"
  shows "render_createColorSwatch (Some m) =
           Inr (createColorSwatch_script (JStr name) (JStr model)
                  (join_with '', '' (map show_int vs)) (prop_default m ''spotColor'' (JBool False)))"
  using assms
  by (simp add: render_createColorSwatch_def get_prop_def prop_default_def js_join_def Let_def
      comp_def)



text \<open>For comparison, the same request with the colour model \<^verbatim>\<open>CMYK\<close> adds a swatch.\<close>

lemma cmyk_adds_a_swatch:
  "createColorSwatch_jsx example_host ''Red'' ''CMYK'' [0, 100, 100, 0] False
         [\<lparr>page_count = 1, swatches = [''Black'']\<rparr>] =
       Some (Inr (''Color swatch '' @ [CHR 0x27] @ ''Red'' @ [CHR 0x27] @
                  '' created (CMYK: 0, 100, 100, 0)''),
             [\<lparr>page_count = 1, swatches = [''Black'', ''Red'']\<rparr>])"
  by (simp add: createColorSwatch_jsx_def example_host_def show_int_def show_nat.simps escape_value_def)


end
